theory Spec2Isabelle
  imports Main
begin

section \<open>Data model\<close>

text \<open>
  Object identifiers of the document store are natural numbers. A string that reaches a
  handler where an identifier is expected (a route parameter, a query value, the
  \<open>team\<close> field of a request body) is one of three things: the canonical spelling of an
  identifier, the one that \<open>toString()\<close> gives (\<open>Id\<close>); another string that the store
  casts to the identifier, for instance its hexadecimal digits in upper case (\<open>Alias\<close>);
  or a string that cannot be cast (\<open>Malformed\<close>).
\<close>

type_synonym oid = nat

datatype param = Malformed | Alias oid | Id oid

text \<open>The cast of the store, and the identifier a string is the canonical spelling of.\<close>

fun castObjectId :: "param \<Rightarrow> oid option" where
  "castObjectId Malformed = None"
| "castObjectId (Alias i) = Some i"
| "castObjectId (Id i) = Some i"

fun canonical :: "param \<Rightarrow> oid option" where
  "canonical (Id i) = Some i"
| "canonical (Alias i) = None"
| "canonical Malformed = None"

text \<open>A value of the query string: left out of the URL, or a string.\<close>

datatype query = Omitted | Given param

text \<open>\<open>res.locals.user\<close>: the authenticated caller.\<close>

record user =
  user_id :: oid
  admin :: bool

text \<open>\<open>req.body\<close> of a project creation.\<close>

record body =
  body_name :: string
  body_description :: string
  body_url :: string
  body_slides :: string
  body_video :: string
  body_team :: param

record project =
  p_id :: oid
  p_name :: string
  p_description :: string
  p_event :: oid
  p_url :: string
  p_slides :: string
  p_video :: string
  p_team :: oid
  p_prizes :: "oid list"

record prize =
  z_id :: oid
  z_event :: oid
  z_provider :: oid
  z_winner :: "oid option"

text \<open>
  The store: the Project and Prize collections in insertion order, and what the
  controller imports, taken as parameters: \<open>findUserTeam\<close> (TeamController), which gives
  the identifier of the team a user belongs to, if any; \<open>getTartanHacks\<close>
  (EventController), which gives the current event; and \<open>validates\<close>, the validation of
  the Project schema (models/Project), which says whether \<open>save\<close> accepts the document
  made from a request body.
\<close>

record db =
  projects :: "project list"
  prizes :: "prize list"
  findUserTeam :: "oid \<Rightarrow> oid option"
  getTartanHacks :: oid
  validates :: "body \<Rightarrow> bool"

text \<open>
  What a handler sends: \<open>res.json\<close> of a project or of a message object, \<open>bad(res, msg)\<close>
  with or without a message, \<open>bad(res, err.message)\<close> for a cast error (\<open>BadCast\<close>),
  \<open>notFound(res)\<close> and \<open>error(res)\<close>.
\<close>

datatype response =
  Json_project project
  | Json_message string
  | Bad "string option"
  | BadCast
  | NotFound
  | Error

text \<open>The three rejections of \<open>createNewProject\<close>, under the names the specification gives them.\<close>

abbreviation DuplicateProject :: response where
  "DuplicateProject \<equiv>
     Bad (Some ''You already have a project. Please edit or delete your existing project.'')"

abbreviation NoTeam :: response where
  "NoTeam \<equiv> Bad (Some ''You must be in a team to create a project.'')"

abbreviation NotOwner :: response where
  "NotOwner \<equiv> Bad (Some ''You can only create projects for your team.'')"

section \<open>Store operations\<close>

definition Project_findById :: "oid \<Rightarrow> db \<Rightarrow> project option" where
  "Project_findById i s = find (\<lambda>p. p_id p = i) (projects s)"

definition Prize_findById :: "oid \<Rightarrow> db \<Rightarrow> prize option" where
  "Prize_findById i s = find (\<lambda>z. z_id z = i) (prizes s)"

text \<open>
  \<open>$addToSet\<close>: the element is appended unless the array already holds it. (The update
  gives a one-element array for an array path; the object mapper sends it as the
  elements to add.)
\<close>

definition addToSet :: "oid \<Rightarrow> oid list \<Rightarrow> oid list" where
  "addToSet z zs = (if z \<in> set zs then zs else zs @ [z])"

text \<open>\<open>project.updateOne({$addToSet: {prizes: [z]}})\<close> on the document with identifier \<open>i\<close>.\<close>

fun updateOne_addToSet :: "oid \<Rightarrow> oid \<Rightarrow> project list \<Rightarrow> project list" where
  "updateOne_addToSet i z [] = []"
| "updateOne_addToSet i z (p # ps) =
     (if p_id p = i then p\<lparr>p_prizes := addToSet z (p_prizes p)\<rparr> # ps
      else p # updateOne_addToSet i z ps)"

fun findByIdAndDelete :: "oid \<Rightarrow> project list \<Rightarrow> project list" where
  "findByIdAndDelete i [] = []"
| "findByIdAndDelete i (p # ps) =
     (if p_id p = i then ps else p # findByIdAndDelete i ps)"

section \<open>The controller\<close>

subsection \<open>\<open>createNewProject\<close>\<close>

text \<open>
  The handler is suspended at every \<open>await\<close>, and other requests are served meanwhile.
  It is therefore modelled in the two parts that the store sees. The first part is what
  the handler does up to the ownership test: it reads the current event, queries for a
  project of the team and the event, and, for a caller who is not an admin, reads the
  caller's team and compares its \<open>toString()\<close> with the string of the body. It answers
  with a rejection, or goes on with the event and the cast team. A malformed \<open>team\<close>
  makes the query raise a cast error, answered with \<open>bad(res)\<close>. These reads are taken
  at one moment; no \<open>createNewProject\<close> changes the event or the teams.
\<close>

definition createNewProject_checks :: "body \<Rightarrow> user \<Rightarrow> db \<Rightarrow> response + oid \<times> oid" where
  "createNewProject_checks b u s =
     (let event = getTartanHacks s in
      case castObjectId (body_team b) of
        None \<Rightarrow> Inl (Bad None)
      | Some team \<Rightarrow>
          (case find (\<lambda>p. p_team p = team \<and> p_event p = event) (projects s) of
             Some existingProjects \<Rightarrow>
               Inl (Bad (Some ''You already have a project. Please edit or delete your existing project.''))
           | None \<Rightarrow>
               if \<not> admin u then
                 (case findUserTeam s (user_id u) of
                    None \<Rightarrow> Inl (Bad (Some ''You must be in a team to create a project.''))
                  | Some userTeam \<Rightarrow>
                      if canonical (body_team b) \<noteq> Some userTeam
                      then Inl (Bad (Some ''You can only create projects for your team.''))
                      else Inr (event, team))
               else Inr (event, team)))"

text \<open>
  The second part is \<open>project.save()\<close> and the answer. \<open>newId\<close> is the identifier the
  driver generates for the new document. A document that the schema does not validate
  makes \<open>save\<close> raise a validation error, answered with \<open>bad(res)\<close>.
\<close>

definition createNewProject_save :: "oid \<Rightarrow> body \<Rightarrow> oid \<times> oid \<Rightarrow> db \<Rightarrow> response \<times> db" where
  "createNewProject_save newId b et s =
     (case et of (event, team) \<Rightarrow>
        if validates s b then
          (let project = \<lparr>p_id = newId, p_name = body_name b,
                 p_description = body_description b, p_event = event,
                 p_url = body_url b, p_slides = body_slides b,
                 p_video = body_video b, p_team = team, p_prizes = []\<rparr>
           in (Json_project project, s\<lparr>projects := projects s @ [project]\<rparr>))
        else (Bad None, s))"

text \<open>A request that is served with no other request in between.\<close>

definition createNewProject :: "oid \<Rightarrow> body \<Rightarrow> user \<Rightarrow> db \<Rightarrow> response \<times> db" where
  "createNewProject newId b u s =
     (case createNewProject_checks b u s of
        Inl r \<Rightarrow> (r, s)
      | Inr et \<Rightarrow> createNewProject_save newId b et s)"





text \<open>The projects stored for a team and an event.\<close>

definition projectsFor :: "oid \<Rightarrow> oid \<Rightarrow> db \<Rightarrow> project list" where
  "projectsFor t e s = filter (\<lambda>p. p_team p = t \<and> p_event p = e) (projects s)"

subsection \<open>\<open>enterProject\<close> and \<open>deleteProject\<close>\<close>

text \<open>
  \<open>enterProject\<close>. The two \<open>=== null\<close> guards come first (\<open>None\<close> is \<open>null\<close>); inside
  the \<open>try\<close>, a malformed identifier makes \<open>findById\<close> raise a cast error, answered
  with \<open>bad(res, err.message)\<close>. A \<open>prizeID\<close> left out of the URL is \<open>undefined\<close>: it
  passes the guard, and \<open>findById\<close> finds no prize for it. The caller \<open>u\<close> is
  \<open>res.locals.user\<close>.
\<close>

definition enterProject :: "param option \<Rightarrow> query option \<Rightarrow> user \<Rightarrow> db \<Rightarrow> response \<times> db" where
  "enterProject ident prizeID u s =
     (case ident of
        None \<Rightarrow> (Bad (Some ''Missing Project ID''), s)
      | Some i \<Rightarrow>
          (case prizeID of
             None \<Rightarrow> (Bad (Some ''Missing Prize ID''), s)
           | Some q \<Rightarrow>
               (case castObjectId i of
                  None \<Rightarrow> (BadCast, s)
                | Some pid \<Rightarrow>
                    (case Project_findById pid s of
                       None \<Rightarrow> (Bad (Some ''Invalid Project ID''), s)
                     | Some project \<Rightarrow>
                         (case q of
                            Omitted \<Rightarrow> (Bad (Some ''Invalid Prize ID''), s)
                          | Given z \<Rightarrow>
                              (case castObjectId z of
                                 None \<Rightarrow> (BadCast, s)
                               | Some zid \<Rightarrow>
                                   (case Prize_findById zid s of
                                      None \<Rightarrow> (Bad (Some ''Invalid Prize ID''), s)
                                    | Some prize \<Rightarrow>
                                        (let s' = s\<lparr>projects :=
                                               updateOne_addToSet (p_id project) (z_id prize)
                                                 (projects s)\<rparr>
                                         in case Project_findById pid s' of
                                              None \<Rightarrow> (Error, s')
                                            | Some updatedProject \<Rightarrow>
                                                (Json_project updatedProject, s')))))))))"

definition deleteProject :: "param option \<Rightarrow> user \<Rightarrow> db \<Rightarrow> response \<times> db" where
  "deleteProject ident u s =
     (case ident of
        None \<Rightarrow> (Bad (Some ''Missing Project ID.''), s)
      | Some i \<Rightarrow>
          (case castObjectId i of
             None \<Rightarrow> (Bad None, s)
           | Some pid \<Rightarrow>
               (Json_message ''Successfully deleted project.'',
                s\<lparr>projects := findByIdAndDelete pid (projects s)\<rparr>)))"

subsection \<open>\<open>getProjectByTeamID\<close> and \<open>getProjectByUserID\<close>\<close>

text \<open>
  Both read \<open>req.params.id\<close> only; the rest of the request (\<open>b\<close>, the body, with its
  \<open>team\<close> field) and the caller are passed along as the source passes \<open>req\<close> and \<open>res\<close>.
  \<open>new ObjectId(id)\<close> on a malformed identifier raises an error that is not a cast
  error, answered with \<open>error(res)\<close>.
\<close>

definition getProjectByTeamID :: "param \<Rightarrow> body \<Rightarrow> user \<Rightarrow> db \<Rightarrow> response" where
  "getProjectByTeamID ident b u s =
     (case castObjectId ident of
        None \<Rightarrow> Bad None
      | Some t \<Rightarrow>
          (case find (\<lambda>p. p_team p = t) (projects s) of
             Some result \<Rightarrow> Json_project result
           | None \<Rightarrow> NotFound))"

definition getProjectByUserID :: "param \<Rightarrow> body \<Rightarrow> user \<Rightarrow> db \<Rightarrow> response" where
  "getProjectByUserID ident b u s =
     (case castObjectId ident of
        None \<Rightarrow> Error
      | Some uid \<Rightarrow>
          (case findUserTeam s uid of
             None \<Rightarrow> Bad (Some ''User does not have a team!'')
           | Some populatedTeam \<Rightarrow> getProjectByTeamID (Id populatedTeam) b u s))"

section \<open>Example store\<close>

definition proj1 :: project where
  "proj1 = \<lparr>p_id = 100, p_name = ''Alpha'', p_description = ''first'', p_event = 1,
     p_url = ''u'', p_slides = ''s'', p_video = ''v'', p_team = 10, p_prizes = [50]\<rparr>"

definition prizeA :: prize where
  "prizeA = \<lparr>z_id = 50, z_event = 1, z_provider = 7, z_winner = Some 100\<rparr>"

definition prizeB :: prize where
  "prizeB = \<lparr>z_id = 51, z_event = 1, z_provider = 7, z_winner = None\<rparr>"

text \<open>
  Team 10 (user 1) has a project for event 1; user 2 is in team 20, user 3 in no team.
  The schema asks for a name.
\<close>

definition db0 :: db where
  "db0 = \<lparr>projects = [proj1], prizes = [prizeA, prizeB],
     findUserTeam = (\<lambda>uid. if uid = 1 then Some 10 else if uid = 2 then Some 20 else None),
     getTartanHacks = 1,
     validates = (\<lambda>b. body_name b \<noteq> [])\<rparr>"

definition body0 :: body where
  "body0 = \<lparr>body_name = ''Beta'', body_description = ''second'', body_url = ''u2'',
     body_slides = ''s2'', body_video = ''v2'', body_team = Id 20\<rparr>"


section \<open>Facts about the store operations\<close>

lemma find_None_filter_Nil: "find P xs = None \<Longrightarrow> filter P xs = []"
  by (induction xs) (auto split: if_splits)

lemma find_None_iff_filter_Nil: "(find P xs = None) = (filter P xs = [])"
  by (induction xs) auto

lemma find_Some_if_member: "x \<in> set xs \<Longrightarrow> P x \<Longrightarrow> find P xs \<noteq> None"
  by (auto simp: find_None_iff)

lemma find_Some_member: "find P xs = Some x \<Longrightarrow> x \<in> set xs \<and> P x"
  by (induction xs) (auto split: if_splits)

lemma find_id_project: "find (\<lambda>p. p_id p = i) ps = Some p \<Longrightarrow> p_id p = i"
  by (induction ps) (auto split: if_splits)

lemma find_id_prize: "find (\<lambda>z. z_id z = i) zs = Some z \<Longrightarrow> z_id z = i"
  by (induction zs) (auto split: if_splits)

lemma addToSet_idem: "addToSet z (addToSet z zs) = addToSet z zs"
  by (simp add: addToSet_def)

lemma set_addToSet: "set (addToSet z zs) = insert z (set zs)"
  by (auto simp: addToSet_def)

lemma find_updateOne_addToSet:
  "find (\<lambda>p. p_id p = i) ps = Some p \<Longrightarrow>
   find (\<lambda>p. p_id p = i) (updateOne_addToSet i z ps) = Some (p\<lparr>p_prizes := addToSet z (p_prizes p)\<rparr>)"
  by (induction ps) (auto split: if_splits)

lemma updateOne_addToSet_idem:
  "updateOne_addToSet i z (updateOne_addToSet i z ps) = updateOne_addToSet i z ps"
  by (induction ps) (simp_all add: addToSet_idem)

lemma findByIdAndDelete_others:
  "filter (\<lambda>p. p_id p \<noteq> i) (findByIdAndDelete i ps) = filter (\<lambda>p. p_id p \<noteq> i) ps"
  by (induction ps) auto

lemma findByIdAndDelete_length:
  "length ps \<le> Suc (length (findByIdAndDelete i ps))"
  by (induction ps) auto

lemma findByIdAndDelete_absent:
  "find (\<lambda>p. p_id p = i) ps = None \<Longrightarrow> findByIdAndDelete i ps = ps"
  by (induction ps) (auto split: if_splits)

section \<open>What \<open>createNewProject\<close> answers\<close>

text \<open>
  The handler on a team string that can be cast, as one chain of tests in the order the
  source makes them: the existing project, then the caller's role and team, then the
  insertion.
\<close>

lemma createNewProject_cast:
  "castObjectId (body_team b) = Some t \<Longrightarrow>
   createNewProject newId b u s =
     (if projectsFor t (getTartanHacks s) s \<noteq> [] then (DuplicateProject, s)
      else if \<not> admin u \<and> findUserTeam s (user_id u) = None then (NoTeam, s)
      else if \<not> admin u \<and> findUserTeam s (user_id u) \<noteq> canonical (body_team b) then (NotOwner, s)
      else if \<not> validates s b then (Bad None, s)
      else (let project = \<lparr>p_id = newId, p_name = body_name b,
                   p_description = body_description b, p_event = getTartanHacks s,
                   p_url = body_url b, p_slides = body_slides b,
                   p_video = body_video b, p_team = t, p_prizes = []\<rparr>
            in (Json_project project, s\<lparr>projects := projects s @ [project]\<rparr>)))"
  by (auto simp: createNewProject_def createNewProject_checks_def createNewProject_save_def
      projectsFor_def Let_def find_None_iff_filter_Nil [symmetric]
      split: option.splits)

lemma createNewProject_Id:
  "body_team b = Id t \<Longrightarrow>
   createNewProject newId b u s =
     (if projectsFor t (getTartanHacks s) s \<noteq> [] then (DuplicateProject, s)
      else if \<not> admin u \<and> findUserTeam s (user_id u) = None then (NoTeam, s)
      else if \<not> admin u \<and> findUserTeam s (user_id u) \<noteq> Some t then (NotOwner, s)
      else if \<not> validates s b then (Bad None, s)
      else (let project = \<lparr>p_id = newId, p_name = body_name b,
                   p_description = body_description b, p_event = getTartanHacks s,
                   p_url = body_url b, p_slides = body_slides b,
                   p_video = body_video b, p_team = t, p_prizes = []\<rparr>
            in (Json_project project, s\<lparr>projects := projects s @ [project]\<rparr>)))"
  using createNewProject_cast [of b t newId u s] by simp

lemma createNewProject_Malformed:
  "castObjectId (body_team b) = None \<Longrightarrow> createNewProject newId b u s = (Bad None, s)"
  by (simp add: createNewProject_def createNewProject_checks_def)



section \<open>One project for a team and an event\<close>








section \<open>The order of the checks in \<open>createNewProject\<close>\<close>

text \<open>
  C2 (as stated: the ownership decision comes first, so a caller who would be denied
  never sees the duplicate-project rejection). The handler queries for an existing
  project before it looks at the caller. In the example store team 10 has a project for
  the current event; user 2 (of team 20) and user 3 (of no team), neither an admin, ask
  for a project for team 10, and both are answered with the duplicate-project
  rejection, not with the ownership or the no-team denial.
\<close>

theorem createNewProject_authorizer_first_counterexample:
  "\<not> admin \<lparr>user_id = 2, admin = False\<rparr> \<and> findUserTeam db0 2 = Some 20 \<and> findUserTeam db0 3 = None
   \<and> createNewProject 105 (body0\<lparr>body_team := Id 10\<rparr>) \<lparr>user_id = 2, admin = False\<rparr> db0
        = (DuplicateProject, db0)
   \<and> createNewProject 105 (body0\<lparr>body_team := Id 10\<rparr>) \<lparr>user_id = 3, admin = False\<rparr> db0
        = (DuplicateProject, db0)
   \<and> DuplicateProject \<noteq> NotOwner \<and> DuplicateProject \<noteq> NoTeam"
  by (simp add: createNewProject_def createNewProject_checks_def db0_def proj1_def body0_def)

text \<open>
  C2 (amended). The duplicate check is evaluated first: when the target team already has
  a project for the current event, the request is rejected as a duplicate, whoever the
  caller is. Only when there is none is the caller examined: a non-admin caller without a
  team gets the no-team denial, a non-admin caller of another team the ownership denial.
  In every one of these cases the store is unchanged.
\<close>

theorem createNewProject_duplicate_check_first:
  "body_team b = Id t \<Longrightarrow>
   (projectsFor t (getTartanHacks s) s \<noteq> [] \<longrightarrow> createNewProject newId b u s = (DuplicateProject, s)) \<and>
   (projectsFor t (getTartanHacks s) s = [] \<and> \<not> admin u \<and> findUserTeam s (user_id u) = None
      \<longrightarrow> createNewProject newId b u s = (NoTeam, s)) \<and>
   (projectsFor t (getTartanHacks s) s = [] \<and> \<not> admin u \<and> findUserTeam s (user_id u) = Some ut \<and> ut \<noteq> t
      \<longrightarrow> createNewProject newId b u s = (NotOwner, s))"
  by (simp add: createNewProject_Id)

theorem createNewProject_duplicate_check_first_witness:
  "body_team (body0\<lparr>body_team := Id 10\<rparr>) = Id 10
   \<and> projectsFor 10 (getTartanHacks db0) db0 \<noteq> []
   \<and> createNewProject 105 (body0\<lparr>body_team := Id 10\<rparr>) \<lparr>user_id = 2, admin = False\<rparr> db0
        = (DuplicateProject, db0)
   \<and> body_team body0 = Id 20 \<and> projectsFor 20 (getTartanHacks db0) db0 = []
   \<and> \<not> admin \<lparr>user_id = 3, admin = False\<rparr>
   \<and> findUserTeam db0 (user_id \<lparr>user_id = 3, admin = False\<rparr>) = None
   \<and> createNewProject 105 body0 \<lparr>user_id = 3, admin = False\<rparr> db0 = (NoTeam, db0)
   \<and> \<not> admin \<lparr>user_id = 1, admin = False\<rparr>
   \<and> findUserTeam db0 (user_id \<lparr>user_id = 1, admin = False\<rparr>) = Some 10 \<and> (10::nat) \<noteq> 20
   \<and> createNewProject 105 body0 \<lparr>user_id = 1, admin = False\<rparr> db0 = (NotOwner, db0)"
  using createNewProject_duplicate_check_first [of "body0\<lparr>body_team := Id 10\<rparr>" 10 db0 105
      "\<lparr>user_id = 2, admin = False\<rparr>" 20]
    createNewProject_duplicate_check_first [of body0 20 db0 105 "\<lparr>user_id = 3, admin = False\<rparr>" 10]
    createNewProject_duplicate_check_first [of body0 20 db0 105 "\<lparr>user_id = 1, admin = False\<rparr>" 10]
  by (simp add: db0_def proj1_def body0_def projectsFor_def)

section \<open>What \<open>enterProject\<close> and \<open>deleteProject\<close> answer\<close>

lemma enterProject_entered:
  assumes "castObjectId i = Some pid" and "castObjectId z = Some zid"
    and "Project_findById pid s = Some p" and "Prize_findById zid s = Some pr"
  shows "enterProject (Some i) (Some (Given z)) u s =
           (Json_project (p\<lparr>p_prizes := addToSet zid (p_prizes p)\<rparr>),
            s\<lparr>projects := updateOne_addToSet pid zid (projects s)\<rparr>)"
proof -
  have pi: "p_id p = pid"
    using assms(3) find_id_project [of pid "projects s" p] by (simp add: Project_findById_def)
  have zi: "z_id pr = zid"
    using assms(4) find_id_prize [of zid "prizes s" pr] by (simp add: Prize_findById_def)
  from assms(3)
  have upd: "Project_findById pid (s\<lparr>projects := updateOne_addToSet pid zid (projects s)\<rparr>)
          = Some (p\<lparr>p_prizes := addToSet zid (p_prizes p)\<rparr>)"
    by (simp add: Project_findById_def find_updateOne_addToSet)
  show ?thesis
    by (simp add: enterProject_def assms pi zi upd)
qed

lemma enterProject_unchanged_unless_project:
  assumes "\<forall>p. fst (enterProject ident prizeID u s) \<noteq> Json_project p"
  shows "snd (enterProject ident prizeID u s) = s"
proof (cases "\<exists>i z pid zid p pr. ident = Some i \<and> prizeID = Some (Given z)
                \<and> castObjectId i = Some pid \<and> castObjectId z = Some zid
                \<and> Project_findById pid s = Some p \<and> Prize_findById zid s = Some pr")
  case True
  then obtain i z pid zid p pr where "ident = Some i" "prizeID = Some (Given z)"
      "castObjectId i = Some pid" "castObjectId z = Some zid"
      "Project_findById pid s = Some p" "Prize_findById zid s = Some pr"
    by blast
  with assms show ?thesis by (simp add: enterProject_entered)
next
  case False
  then show ?thesis
    by (auto simp: enterProject_def split: option.splits query.splits)
qed

lemma enterProject_never_notFound:
  "fst (enterProject ident prizeID u s) \<noteq> NotFound"
  by (simp add: enterProject_def Let_def split: option.splits query.splits)

lemma deleteProject_cast:
  "castObjectId i = Some pid \<Longrightarrow>
   deleteProject (Some i) u s =
     (Json_message ''Successfully deleted project.'',
      s\<lparr>projects := findByIdAndDelete pid (projects s)\<rparr>)"
  by (simp add: deleteProject_def)

section \<open>Admins\<close>

lemma createNewProject_admin_response:
  assumes "admin u"
  shows "fst (createNewProject newId b u s) \<noteq> NoTeam \<and> fst (createNewProject newId b u s) \<noteq> NotOwner"
proof (cases "castObjectId (body_team b)")
  case None
  then show ?thesis by (simp add: createNewProject_Malformed)
next
  case (Some t)
  with assms show ?thesis by (simp add: createNewProject_cast Let_def)
qed

lemma createNewProject_admin_inserts:
  assumes "admin u" and "castObjectId (body_team b) = Some t"
    and "projectsFor t (getTartanHacks s) s = []" and "validates s b"
  shows "\<exists>p. createNewProject newId b u s = (Json_project p, s\<lparr>projects := projects s @ [p]\<rparr>)
           \<and> p_id p = newId \<and> p_team p = t \<and> p_event p = getTartanHacks s"
  using assms by (simp add: createNewProject_cast Let_def)

lemma createNewProject_admin_any_team:
  assumes "admin u"
  shows "createNewProject newId b u (s\<lparr>findUserTeam := f\<rparr>) =
           (fst (createNewProject newId b u s), snd (createNewProject newId b u s)\<lparr>findUserTeam := f\<rparr>)"
proof (cases "castObjectId (body_team b)")
  case None
  then show ?thesis by (simp add: createNewProject_Malformed)
next
  case (Some t)
  with assms show ?thesis by (simp add: createNewProject_cast Let_def projectsFor_def)
qed

text \<open>
  C3. An admin is allowed every operation of the controller, whatever team owns the
  target and whatever team, if any, the admin belongs to. \<open>createNewProject\<close> by an
  admin is answered neither with the no-team nor with the ownership denial; its answer
  and its effect on the projects do not depend on the teams of the users; when the
  target team has no project for the current event and the schema validates the body,
  the project is created for that team. \<open>enterProject\<close> by an admin, on an existing
  project and an existing prize, answers with the project entered in the prize;
  \<open>deleteProject\<close> answers with the success message and removes the project;
  \<open>getProjectByTeamID\<close> answers with the first project of the team, or not-found when
  the team has none; \<open>getProjectByUserID\<close> answers with that of the user's team.
\<close>

theorem createNewProject_admin_allowed:
  "admin u \<Longrightarrow>
   fst (createNewProject newId b u s) \<noteq> NoTeam \<and> fst (createNewProject newId b u s) \<noteq> NotOwner \<and>
   createNewProject newId b u (s\<lparr>findUserTeam := f\<rparr>) =
     (fst (createNewProject newId b u s), snd (createNewProject newId b u s)\<lparr>findUserTeam := f\<rparr>) \<and>
   (castObjectId (body_team b) = Some t \<and> projectsFor t (getTartanHacks s) s = [] \<and> validates s b \<longrightarrow>
      (\<exists>p. createNewProject newId b u s = (Json_project p, s\<lparr>projects := projects s @ [p]\<rparr>)
           \<and> p_id p = newId \<and> p_team p = t \<and> p_event p = getTartanHacks s)) \<and>
   (Project_findById i s = Some p' \<and> Prize_findById z s = Some pr \<longrightarrow>
      enterProject (Some (Id i)) (Some (Given (Id z))) u s =
        (Json_project (p'\<lparr>p_prizes := addToSet z (p_prizes p')\<rparr>),
         s\<lparr>projects := updateOne_addToSet i z (projects s)\<rparr>)) \<and>
   deleteProject (Some (Id i)) u s =
     (Json_message ''Successfully deleted project.'',
      s\<lparr>projects := findByIdAndDelete i (projects s)\<rparr>) \<and>
   getProjectByTeamID (Id t') b u s =
     (case find (\<lambda>p. p_team p = t') (projects s) of
        Some result \<Rightarrow> Json_project result | None \<Rightarrow> NotFound) \<and>
   (findUserTeam s uid = Some t' \<longrightarrow>
      getProjectByUserID (Id uid) b u s = getProjectByTeamID (Id t') b u s)"
  using createNewProject_admin_response [of u newId b s]
    createNewProject_admin_any_team [of u newId b f s]
    createNewProject_admin_inserts [of u b t s newId]
    enterProject_entered [of "Id i" i "Id z" z s p' pr u]
    deleteProject_cast [of "Id i" i u s]
  by (simp add: getProjectByTeamID_def getProjectByUserID_def)

theorem createNewProject_admin_allowed_witness:
  "admin \<lparr>user_id = 9, admin = True\<rparr> \<and> findUserTeam db0 9 = None
   \<and> castObjectId (body_team body0) = Some 20 \<and> projectsFor 20 (getTartanHacks db0) db0 = []
   \<and> validates db0 body0
   \<and> (\<exists>p. createNewProject 101 body0 \<lparr>user_id = 9, admin = True\<rparr> db0
            = (Json_project p, db0\<lparr>projects := projects db0 @ [p]\<rparr>)
          \<and> p_id p = 101 \<and> p_team p = 20 \<and> p_event p = getTartanHacks db0)
   \<and> Project_findById 100 db0 = Some proj1 \<and> p_team proj1 = 10 \<and> Prize_findById 51 db0 = Some prizeB
   \<and> enterProject (Some (Id 100)) (Some (Given (Id 51))) \<lparr>user_id = 9, admin = True\<rparr> db0
       = (Json_project (proj1\<lparr>p_prizes := [50, 51]\<rparr>), db0\<lparr>projects := [proj1\<lparr>p_prizes := [50, 51]\<rparr>]\<rparr>)
   \<and> deleteProject (Some (Id 100)) \<lparr>user_id = 9, admin = True\<rparr> db0
       = (Json_message ''Successfully deleted project.'', db0\<lparr>projects := []\<rparr>)
   \<and> getProjectByTeamID (Id 10) body0 \<lparr>user_id = 9, admin = True\<rparr> db0 = Json_project proj1
   \<and> findUserTeam db0 1 = Some 10
   \<and> getProjectByUserID (Id 1) body0 \<lparr>user_id = 9, admin = True\<rparr> db0 = Json_project proj1"
  using createNewProject_admin_allowed [of "\<lparr>user_id = 9, admin = True\<rparr>" 101 body0 db0
      "findUserTeam db0" 20 100 proj1 51 prizeB 10 1]
  by (simp add: db0_def proj1_def prizeA_def prizeB_def body0_def projectsFor_def
      Project_findById_def Prize_findById_def addToSet_def)

section \<open>Participants\<close>




text \<open>
  C5 (as stated: a non-admin caller without a team is denied with the no-team reason).
  User 3 has no team and asks for a project for team 10, which already has one for the
  current event: the answer is the duplicate-project rejection, not the no-team denial.
\<close>

theorem createNewProject_no_team_counterexample:
  "\<not> admin \<lparr>user_id = 3, admin = False\<rparr> \<and> findUserTeam db0 (user_id \<lparr>user_id = 3, admin = False\<rparr>) = None
   \<and> fst (createNewProject 107 (body0\<lparr>body_team := Id 10\<rparr>) \<lparr>user_id = 3, admin = False\<rparr> db0)
        = DuplicateProject
   \<and> fst (createNewProject 107 (body0\<lparr>body_team := Id 10\<rparr>) \<lparr>user_id = 3, admin = False\<rparr> db0)
        \<noteq> NoTeam"
  by (simp add: createNewProject_def createNewProject_checks_def db0_def proj1_def body0_def)

text \<open>
  C5 (amended). A non-admin caller without a team who asks for a project for a team that
  has no project for the current event gets the no-team denial, the store is unchanged,
  and that denial differs from the ownership denial.
\<close>

theorem createNewProject_no_team:
  "\<not> admin u \<Longrightarrow> findUserTeam s (user_id u) = None \<Longrightarrow> body_team b = Id t \<Longrightarrow>
   projectsFor t (getTartanHacks s) s = [] \<Longrightarrow>
   createNewProject newId b u s = (NoTeam, s) \<and> NoTeam \<noteq> NotOwner"
  by (simp add: createNewProject_Id)

theorem createNewProject_no_team_witness:
  "\<not> admin \<lparr>user_id = 3, admin = False\<rparr> \<and> findUserTeam db0 (user_id \<lparr>user_id = 3, admin = False\<rparr>) = None
   \<and> body_team body0 = Id 20 \<and> projectsFor 20 (getTartanHacks db0) db0 = []
   \<and> createNewProject 101 body0 \<lparr>user_id = 3, admin = False\<rparr> db0 = (NoTeam, db0)"
  using createNewProject_no_team [of "\<lparr>user_id = 3, admin = False\<rparr>" db0 body0 20 101]
  by (simp add: db0_def proj1_def body0_def projectsFor_def)

section \<open>Entering a project in a prize\<close>

text \<open>
  C6. For an existing project and an existing prize, entering the project in the prize a
  second time (by any caller) gives the same answer and the same store as the first
  time: a success carrying the stored project, whose prizes are those it had before
  together with the prize.
\<close>

theorem enterProject_idempotent:
  assumes "Project_findById i s = Some p" and "Prize_findById z s = Some pr"
  shows "enterProject (Some (Id i)) (Some (Given (Id z))) u'
             (snd (enterProject (Some (Id i)) (Some (Given (Id z))) u s))
           = enterProject (Some (Id i)) (Some (Given (Id z))) u s
         \<and> (\<exists>p'. fst (enterProject (Some (Id i)) (Some (Given (Id z))) u s) = Json_project p'
                \<and> Project_findById i (snd (enterProject (Some (Id i)) (Some (Given (Id z))) u s)) = Some p'
                \<and> set (p_prizes p') = insert z (set (p_prizes p)))"
proof -
  let ?p1 = "p\<lparr>p_prizes := addToSet z (p_prizes p)\<rparr>"
  let ?s1 = "s\<lparr>projects := updateOne_addToSet i z (projects s)\<rparr>"
  have first: "enterProject (Some (Id i)) (Some (Given (Id z))) u s = (Json_project ?p1, ?s1)"
    using assms by (simp add: enterProject_entered)
  have p1: "Project_findById i ?s1 = Some ?p1"
    using assms(1) by (simp add: Project_findById_def find_updateOne_addToSet)
  have z1: "Prize_findById z ?s1 = Some pr"
    using assms(2) by (simp add: Prize_findById_def)
  have "enterProject (Some (Id i)) (Some (Given (Id z))) u' ?s1 =
          (Json_project (?p1\<lparr>p_prizes := addToSet z (p_prizes ?p1)\<rparr>),
           ?s1\<lparr>projects := updateOne_addToSet i z (projects ?s1)\<rparr>)"
    using p1 z1 by (intro enterProject_entered) simp_all
  then have second: "enterProject (Some (Id i)) (Some (Given (Id z))) u' ?s1 = (Json_project ?p1, ?s1)"
    by (simp add: addToSet_idem updateOne_addToSet_idem)
  show ?thesis
    using first second p1 by (simp add: set_addToSet)
qed

theorem enterProject_idempotent_witness:
  "Project_findById 100 db0 = Some proj1 \<and> Prize_findById 51 db0 = Some prizeB
   \<and> enterProject (Some (Id 100)) (Some (Given (Id 51))) \<lparr>user_id = 2, admin = False\<rparr> db0
       = (Json_project (proj1\<lparr>p_prizes := [50, 51]\<rparr>), db0\<lparr>projects := [proj1\<lparr>p_prizes := [50, 51]\<rparr>]\<rparr>)
   \<and> enterProject (Some (Id 100)) (Some (Given (Id 51))) \<lparr>user_id = 1, admin = False\<rparr>
        (snd (enterProject (Some (Id 100)) (Some (Given (Id 51))) \<lparr>user_id = 2, admin = False\<rparr> db0))
       = enterProject (Some (Id 100)) (Some (Given (Id 51))) \<lparr>user_id = 2, admin = False\<rparr> db0"
  using enterProject_idempotent [of 100 db0 proj1 51 prizeB "\<lparr>user_id = 1, admin = False\<rparr>"
      "\<lparr>user_id = 2, admin = False\<rparr>"]
  by (simp add: db0_def proj1_def prizeA_def prizeB_def Project_findById_def Prize_findById_def
      enterProject_def addToSet_def)

text \<open>
  C7 (as stated: a reference that names no existing entity makes the operation fail with
  the not-found kind). The controller has a not-found answer, \<open>notFound(res)\<close>, and
  gives it in \<open>getProjectByTeamID\<close> when a team has no project. \<open>enterProject\<close> does
  not: for project 999, which does not exist, and for prize 999, which does not exist,
  it answers with \<open>bad\<close> and the messages \<open>Invalid Project ID\<close> and \<open>Invalid Prize ID\<close>.
\<close>

theorem enterProject_not_found_counterexample:
  "Project_findById 999 db0 = None
   \<and> enterProject (Some (Id 999)) (Some (Given (Id 50))) \<lparr>user_id = 1, admin = False\<rparr> db0
       = (Bad (Some ''Invalid Project ID''), db0)
   \<and> Bad (Some ''Invalid Project ID'') \<noteq> NotFound
   \<and> Project_findById 100 db0 = Some proj1 \<and> Prize_findById 999 db0 = None
   \<and> enterProject (Some (Id 100)) (Some (Given (Id 999))) \<lparr>user_id = 1, admin = False\<rparr> db0
       = (Bad (Some ''Invalid Prize ID''), db0)
   \<and> Bad (Some ''Invalid Prize ID'') \<noteq> NotFound
   \<and> getProjectByTeamID (Id 999) body0 \<lparr>user_id = 1, admin = False\<rparr> db0 = NotFound"
  by (simp add: enterProject_def getProjectByTeamID_def Project_findById_def Prize_findById_def
      db0_def proj1_def prizeA_def prizeB_def)

text \<open>
  C7 (amended). When the project reference or the prize reference names no existing
  entity, \<open>enterProject\<close> fails with a \<open>bad\<close> answer and the store, and with it every
  project's prizes, is unchanged: \<open>Invalid Project ID\<close> when no project has the
  identifier; \<open>Invalid Prize ID\<close> when the project exists and the prize identifier is
  left out or no prize has it; the message of the cast error when the project
  identifier is malformed, or the project exists and the prize identifier is malformed.
  It never answers with not-found.
\<close>

theorem enterProject_invalid_reference:
  "(castObjectId i = Some pid \<and> Project_findById pid s = None \<longrightarrow>
      enterProject (Some i) (Some q) u s = (Bad (Some ''Invalid Project ID''), s)) \<and>
   (castObjectId i = Some pid \<and> Project_findById pid s \<noteq> None \<and> q = Omitted \<longrightarrow>
      enterProject (Some i) (Some q) u s = (Bad (Some ''Invalid Prize ID''), s)) \<and>
   (castObjectId i = Some pid \<and> Project_findById pid s \<noteq> None \<and> q = Given z
      \<and> castObjectId z = Some zid \<and> Prize_findById zid s = None \<longrightarrow>
      enterProject (Some i) (Some q) u s = (Bad (Some ''Invalid Prize ID''), s)) \<and>
   (castObjectId i = None \<longrightarrow> enterProject (Some i) (Some q) u s = (BadCast, s)) \<and>
   (castObjectId i = Some pid \<and> Project_findById pid s \<noteq> None \<and> q = Given z
      \<and> castObjectId z = None \<longrightarrow>
      enterProject (Some i) (Some q) u s = (BadCast, s)) \<and>
   fst (enterProject ident prizeID u s) \<noteq> NotFound"
  using enterProject_never_notFound [of ident prizeID u s]
  by (auto simp: enterProject_def)

theorem enterProject_invalid_reference_witness:
  "castObjectId (Id 999) = Some 999 \<and> Project_findById 999 db0 = None
   \<and> enterProject (Some (Id 999)) (Some (Given (Id 50))) \<lparr>user_id = 1, admin = False\<rparr> db0
       = (Bad (Some ''Invalid Project ID''), db0)
   \<and> castObjectId (Id 100) = Some 100 \<and> Project_findById 100 db0 \<noteq> None
   \<and> enterProject (Some (Id 100)) (Some Omitted) \<lparr>user_id = 1, admin = False\<rparr> db0
       = (Bad (Some ''Invalid Prize ID''), db0)
   \<and> Prize_findById 999 db0 = None
   \<and> enterProject (Some (Id 100)) (Some (Given (Id 999))) \<lparr>user_id = 1, admin = False\<rparr> db0
       = (Bad (Some ''Invalid Prize ID''), db0)
   \<and> castObjectId Malformed = None
   \<and> enterProject (Some Malformed) (Some (Given (Id 50))) \<lparr>user_id = 1, admin = False\<rparr> db0
       = (BadCast, db0)
   \<and> enterProject (Some (Id 100)) (Some (Given Malformed)) \<lparr>user_id = 1, admin = False\<rparr> db0
       = (BadCast, db0)"
  using enterProject_invalid_reference [of "Id 999" 999 db0 "Given (Id 50)"
      "\<lparr>user_id = 1, admin = False\<rparr>" "Id 50" 50 "Some (Id 999)" "Some (Given (Id 50))"]
    enterProject_invalid_reference [of "Id 100" 100 db0 Omitted
      "\<lparr>user_id = 1, admin = False\<rparr>" "Id 50" 50 "Some (Id 100)" "Some Omitted"]
    enterProject_invalid_reference [of "Id 100" 100 db0 "Given (Id 999)"
      "\<lparr>user_id = 1, admin = False\<rparr>" "Id 999" 999 "Some (Id 100)" "Some (Given (Id 999))"]
    enterProject_invalid_reference [of Malformed 0 db0 "Given (Id 50)"
      "\<lparr>user_id = 1, admin = False\<rparr>" "Id 50" 50 "Some Malformed" "Some (Given (Id 50))"]
    enterProject_invalid_reference [of "Id 100" 100 db0 "Given Malformed"
      "\<lparr>user_id = 1, admin = False\<rparr>" Malformed 0 "Some (Id 100)" "Some (Given Malformed)"]
  by (simp add: db0_def proj1_def prizeA_def prizeB_def Project_findById_def Prize_findById_def)

text \<open>
  C9. The answer and the store that \<open>enterProject\<close> gives do not depend on the caller.
\<close>

theorem enterProject_caller_independent:
  "enterProject ident prizeID u s = enterProject ident prizeID u' s"
  by (simp add: enterProject_def)

theorem enterProject_caller_independent_witness:
  "enterProject (Some (Id 100)) (Some (Given (Id 51))) \<lparr>user_id = 9, admin = True\<rparr> db0
     = enterProject (Some (Id 100)) (Some (Given (Id 51))) \<lparr>user_id = 2, admin = False\<rparr> db0"
  using enterProject_caller_independent [of "Some (Id 100)" "Some (Given (Id 51))"
      "\<lparr>user_id = 9, admin = True\<rparr>" db0 "\<lparr>user_id = 2, admin = False\<rparr>"]
  by simp

section \<open>The project of a user\<close>

text \<open>
  C8. \<open>getProjectByUserID\<close> resolves the team through \<open>findUserTeam\<close> on the user
  identifier and nothing else: a user without a team gets a rejection and no project; a
  user of team \<open>t\<close> gets what \<open>getProjectByTeamID\<close> gives for \<open>t\<close>, that is a stored
  project of team \<open>t\<close> or not-found; and two requests for the same user identifier get
  the same answer, whatever team identifier the rest of the request carries and whoever
  the caller is.
\<close>

theorem getProjectByUserID_own_team:
  "(findUserTeam s uid = None \<longrightarrow>
      getProjectByUserID (Id uid) b u s = Bad (Some ''User does not have a team!'')) \<and>
   (findUserTeam s uid = Some t \<longrightarrow>
      getProjectByUserID (Id uid) b u s = getProjectByTeamID (Id t) b u s \<and>
      (getProjectByUserID (Id uid) b u s = NotFound \<or>
       (\<exists>p. getProjectByUserID (Id uid) b u s = Json_project p \<and> p \<in> set (projects s) \<and> p_team p = t))) \<and>
   getProjectByUserID (Id uid) b' u' s = getProjectByUserID (Id uid) b u s"
  by (auto simp: getProjectByUserID_def getProjectByTeamID_def split: option.splits
      dest: find_Some_member)

theorem getProjectByUserID_own_team_witness:
  "findUserTeam db0 3 = None
   \<and> getProjectByUserID (Id 3) (body0\<lparr>body_team := Id 10\<rparr>) \<lparr>user_id = 3, admin = False\<rparr> db0
       = Bad (Some ''User does not have a team!'')
   \<and> findUserTeam db0 1 = Some 10
   \<and> getProjectByUserID (Id 1) (body0\<lparr>body_team := Id 20\<rparr>) \<lparr>user_id = 1, admin = False\<rparr> db0
       = Json_project proj1
   \<and> getProjectByUserID (Id 1) body0 \<lparr>user_id = 2, admin = False\<rparr> db0
       = getProjectByUserID (Id 1) (body0\<lparr>body_team := Id 20\<rparr>) \<lparr>user_id = 1, admin = False\<rparr> db0"
  using getProjectByUserID_own_team [of db0 3 "body0\<lparr>body_team := Id 10\<rparr>"
      "\<lparr>user_id = 3, admin = False\<rparr>" 10 body0 "\<lparr>user_id = 2, admin = False\<rparr>"]
    getProjectByUserID_own_team [of db0 1 "body0\<lparr>body_team := Id 20\<rparr>"
      "\<lparr>user_id = 1, admin = False\<rparr>" 10 body0 "\<lparr>user_id = 2, admin = False\<rparr>"]
  by (simp add: db0_def proj1_def body0_def getProjectByTeamID_def)

section \<open>Deleting a project\<close>

text \<open>
  C10. \<open>deleteProject\<close> on a well-formed identifier always reports success, also when
  no project has that identifier (then the store is unchanged). It changes only the
  project collection: the prizes and their winners stay as they are, every project with
  another identifier stays, and at most one project is removed.
\<close>

theorem deleteProject_unconditional:
  "deleteProject (Some (Id i)) u s =
     (Json_message ''Successfully deleted project.'', s\<lparr>projects := findByIdAndDelete i (projects s)\<rparr>)
   \<and> prizes (snd (deleteProject (Some (Id i)) u s)) = prizes s
   \<and> map z_winner (prizes (snd (deleteProject (Some (Id i)) u s))) = map z_winner (prizes s)
   \<and> filter (\<lambda>p. p_id p \<noteq> i) (projects (snd (deleteProject (Some (Id i)) u s)))
        = filter (\<lambda>p. p_id p \<noteq> i) (projects s)
   \<and> length (projects s) \<le> length (projects (snd (deleteProject (Some (Id i)) u s))) + 1
   \<and> (Project_findById i s = None \<longrightarrow> snd (deleteProject (Some (Id i)) u s) = s)"
  by (simp add: deleteProject_def Project_findById_def findByIdAndDelete_others
      findByIdAndDelete_length findByIdAndDelete_absent)

theorem deleteProject_unconditional_witness:
  "Project_findById 999 db0 = None
   \<and> deleteProject (Some (Id 999)) \<lparr>user_id = 2, admin = False\<rparr> db0
       = (Json_message ''Successfully deleted project.'', db0)
   \<and> deleteProject (Some (Id 100)) \<lparr>user_id = 2, admin = False\<rparr> db0
       = (Json_message ''Successfully deleted project.'', db0\<lparr>projects := []\<rparr>)
   \<and> map z_winner (prizes (snd (deleteProject (Some (Id 100)) \<lparr>user_id = 2, admin = False\<rparr> db0)))
       = [Some 100, None]"
  using deleteProject_unconditional [of 999 "\<lparr>user_id = 2, admin = False\<rparr>" db0]
    deleteProject_unconditional [of 100 "\<lparr>user_id = 2, admin = False\<rparr>" db0]
  by (simp add: db0_def proj1_def prizeA_def prizeB_def Project_findById_def)

end
